theory Spec2Isabelle
  imports Complex_Main "HOL-Library.Sublist"
begin

section \<open>Values, errors and the stored rows\<close>

text \<open>
  A request value as the handlers see it. A JavaScript number is modelled as a rational
  (integers are the rationals with denominator one); a value that is not a number is a
  string or \<open>undefined\<close>.
\<close>

datatype jsvalue = JNumber rat | JString string | JUndefined

text \<open>
  The errors the routes throw, under the names of the source. \<open>InvalidArgument\<close> is the
  rejection of a request by its declared schema, which happens before the handler runs;
  \<open>DatabaseError\<close> is a rejected database call and \<open>DecodeError\<close> a blob that
  \<open>RevText.deserialize\<close> cannot read.
\<close>

datatype error =
    InvalidArgument
  | TypeError string
  | NotFoundError string
  | NotAllowedError string
  | LockedError
  | WikiChangedError string
  | DatabaseError
  | DecodeError

text \<open>The members of \<open>RevType\<close> that the routes name.\<close>

datatype RevType =
    subjectRelation
  | subjectCharacterRelation
  | subjectCastRelation
  | subjectPersonRelation
  | characterSubjectRelation
  | characterCastRelation
  | personCastRelation
  | personSubjectRelation
  | personEdit

text \<open>A row of the table \<open>chiiRevHistory\<close>, with the columns the routes read.\<close>

record chiiRevHistory =
  revId :: int
  revType :: RevType
  revMid :: int
  revTextId :: int
  createdAt :: int
  revCreator :: int
  revEditSummary :: string

record SlimUser =
  username :: string

record SlimEntity =
  name :: string

text \<open>
  The read side of the database: the revision log, the blob table \<open>chiiRevText\<close>
  (text id to serialized blob) and the tables behind the bulk name fetchers.
\<close>

record database =
  revHistoryTable :: "chiiRevHistory list"
  revTextTable :: "int \<rightharpoonup> string"
  userTable :: "int \<rightharpoonup> SlimUser"
  subjectTable :: "int \<rightharpoonup> SlimEntity"
  personTable :: "int \<rightharpoonup> SlimEntity"
  characterTable :: "int \<rightharpoonup> SlimEntity"

text \<open>
  What a read handler asks of its collaborators, in the order it asks: each handler
  returns this trace next to its outcome.
\<close>

datatype lookup =
    CountRevHistory rat "RevType list"
  | SelectRevHistory rat "RevType list" int int
  | SelectRevHistoryById int
  | SelectRevText int
  | DeserializeRevText string
  | FetchSlimUsers "int list"
  | FetchSlimSubjects "int list"
  | FetchSlimPersons "int list"
  | FetchSlimCharacters "int list"

text \<open>
  Modelled from the spec: the bulk name fetchers of \<open>lib/types/fetcher.ts\<close> are not
  among the sources. Given a set of ids they return a mapping from id to record in which
  a missing id is simply absent; they never fail.
\<close>

definition fetchSlimByIDs :: "(int \<rightharpoonup> 'a) \<Rightarrow> int list \<Rightarrow> (int \<rightharpoonup> 'a)" where
  "fetchSlimByIDs tbl ids = (\<lambda>i. if i \<in> set ids then tbl i else None)"

definition fetchSlimUsersByIDs :: "database \<Rightarrow> int list \<Rightarrow> (int \<rightharpoonup> SlimUser)" where
  "fetchSlimUsersByIDs db ids = fetchSlimByIDs (userTable db) ids"

definition fetchSlimSubjectsByIDs :: "database \<Rightarrow> int list \<Rightarrow> (int \<rightharpoonup> SlimEntity)" where
  "fetchSlimSubjectsByIDs db ids = fetchSlimByIDs (subjectTable db) ids"

definition fetchSlimPersonsByIDs :: "database \<Rightarrow> int list \<Rightarrow> (int \<rightharpoonup> SlimEntity)" where
  "fetchSlimPersonsByIDs db ids = fetchSlimByIDs (personTable db) ids"

definition fetchSlimCharactersByIDs :: "database \<Rightarrow> int list \<Rightarrow> (int \<rightharpoonup> SlimEntity)" where
  "fetchSlimCharactersByIDs db ids = fetchSlimByIDs (characterTable db) ids"

section \<open>The relation history route\<close>

text \<open>
  \<open>t.Integer({ minimum: 1 })\<close> on the id parameter, and the query string with
  \<open>limit\<close> an optional integer in 1..100 and \<open>offset\<close> an optional integer from 0.
\<close>

definition isInteger :: "jsvalue \<Rightarrow> bool" where
  "isInteger v = (case v of JNumber q \<Rightarrow> of_int \<lfloor>q\<rfloor> = q | _ \<Rightarrow> False)"

definition paramsSchema :: "jsvalue \<Rightarrow> bool" where
  "paramsSchema v = (case v of JNumber q \<Rightarrow> isInteger v \<and> 1 \<le> q | _ \<Rightarrow> False)"

record querystring =
  limit :: "int option"
  offset :: "int option"

definition querystringSchema :: "querystring \<Rightarrow> bool" where
  "querystringSchema q =
     ((case limit q of None \<Rightarrow> True | Some l \<Rightarrow> 1 \<le> l \<and> l \<le> 100) \<and>
      (case offset q of None \<Rightarrow> True | Some off \<Rightarrow> 0 \<le> off))"

record RelationHistorySummary =
  summaryId :: int
  creatorUsername :: string
  commitMessage :: string
  summaryCreatedAt :: int

record PagedRelationHistory =
  total :: nat
  data :: "RelationHistorySummary list"

text \<open>The \<open>where\<close> clause shared by both queries of the handler.\<close>

definition matchingRevisions :: "database \<Rightarrow> rat \<Rightarrow> RevType list \<Rightarrow> chiiRevHistory list" where
  "matchingRevisions db targetId revTypes =
     filter (\<lambda>r. of_int (revMid r) = targetId \<and> revType r \<in> set revTypes) (revHistoryTable db)"

definition countDistinctRevId :: "chiiRevHistory list \<Rightarrow> nat" where
  "countDistinctRevId rows = length (remdups (map revId rows))"

definition orderByRevIdDesc :: "chiiRevHistory list \<Rightarrow> chiiRevHistory list" where
  "orderByRevIdDesc rows = rev (sort_key revId rows)"

text \<open>The second query: the matching rows by revision id descending, skip, take.\<close>

definition selectRevHistory ::
  "database \<Rightarrow> rat \<Rightarrow> RevType list \<Rightarrow> int \<Rightarrow> int \<Rightarrow> chiiRevHistory list" where
  "selectRevHistory db targetId revTypes off lmt =
     take (nat lmt) (drop (nat off) (orderByRevIdDesc (matchingRevisions db targetId revTypes)))"

text \<open>
  One entry of the response: \<open>users[x.revCreator]?.username ?? ghostUser(x.revCreator).username\<close>.
  \<open>ghostUser\<close> (of \<open>lib/user/utils.ts\<close>, not among the sources) is a parameter.
\<close>

definition toSummary ::
  "(int \<rightharpoonup> SlimUser) \<Rightarrow> (int \<Rightarrow> SlimUser) \<Rightarrow> chiiRevHistory \<Rightarrow> RelationHistorySummary" where
  "toSummary users ghostUser x =
     \<lparr> summaryId = revId x,
       creatorUsername =
         (case users (revCreator x) of
            Some u \<Rightarrow> username u
          | None \<Rightarrow> username (ghostUser (revCreator x))),
       commitMessage = revEditSummary x,
       summaryCreatedAt = createdAt x \<rparr>"

text \<open>The defaults of the handler's parameters: \<open>query: { limit = 20, offset = 0 }\<close>.\<close>

definition limitOrDefault :: "querystring \<Rightarrow> int" where
  "limitOrDefault query = (case limit query of None \<Rightarrow> 20 | Some l \<Rightarrow> l)"

definition offsetOrDefault :: "querystring \<Rightarrow> int" where
  "offsetOrDefault query = (case offset query of None \<Rightarrow> 0 | Some x \<Rightarrow> x)"

text \<open>
  The handler of \<open>createRelationHistoryRoute\<close>: a \<open>targetId\<close> that is not a number is
  a \<open>TypeError\<close>; then the count, the page and the user names. A negative \<open>limit\<close>
  or \<open>offset\<close> is outside the declared schema, and what the query builder and the
  database make of one is not in the sources: the handler is stopped with
  \<open>DatabaseError\<close> there, and no property below is about that case.
\<close>

definition relationHistoryHandler ::
  "string \<Rightarrow> RevType list \<Rightarrow> (int \<Rightarrow> SlimUser) \<Rightarrow> database \<Rightarrow> jsvalue \<Rightarrow> querystring \<Rightarrow>
     lookup list \<times> (error + PagedRelationHistory)" where
  "relationHistoryHandler idName revTypes ghostUser db targetId query =
     (let lmt = limitOrDefault query;
          off = offsetOrDefault query
      in case targetId of
           JNumber tid \<Rightarrow>
             (let count = countDistinctRevId (matchingRevisions db tid revTypes) in
              if lmt < 0 \<or> off < 0
              then ([CountRevHistory tid revTypes, SelectRevHistory tid revTypes off lmt],
                    Inl DatabaseError)
              else
                (let history = selectRevHistory db tid revTypes off lmt;
                     users = fetchSlimUsersByIDs db (map revCreator history);
                     revisions = map (toSummary users ghostUser) history
                 in ([CountRevHistory tid revTypes, SelectRevHistory tid revTypes off lmt,
                      FetchSlimUsers (map revCreator history)],
                     Inr \<lparr> total = count, data = revisions \<rparr>)))
         | _ \<Rightarrow> ([], Inl (TypeError (idName @ '' should be a number''))))"

text \<open>
  Modelled from the spec: the route is the declared schema and the handler; applying the
  schema to a request is the work of the web framework, which is not among the sources.
  The request is checked against the schema first, a request that fails it is rejected
  with \<open>InvalidArgument\<close>, and the handler runs only on a request that passes.
\<close>

definition relationHistoryRoute ::
  "string \<Rightarrow> RevType list \<Rightarrow> (int \<Rightarrow> SlimUser) \<Rightarrow> database \<Rightarrow> jsvalue \<Rightarrow> querystring \<Rightarrow>
     lookup list \<times> (error + PagedRelationHistory)" where
  "relationHistoryRoute idName revTypes ghostUser db targetId query =
     (if paramsSchema targetId \<and> querystringSchema query
      then relationHistoryHandler idName revTypes ghostUser db targetId query
      else ([], Inl InvalidArgument))"

section \<open>The revision detail routes\<close>

text \<open>
  A number in a template literal, for a safe integer (one of magnitude at most
  \<open>Number.MAX_SAFE_INTEGER\<close>, which is 2^53 - 1): its decimal digits. Beyond that range a
  JavaScript number is rounded, and from 10^21 it is written with an exponent, so
  \<open>showInt\<close> is the rendering of the code for safe integers only; the properties about
  a message are stated for them.
\<close>

definition maxSafeInteger :: int where
  "maxSafeInteger = 9007199254740991"

fun showNat :: "nat \<Rightarrow> string" where
  "showNat n =
     (if n < 10 then [''0123456789'' ! n]
      else showNat (n div 10) @ [''0123456789'' ! (n mod 10)])"

declare showNat.simps [simp del]

definition showInt :: "int \<Rightarrow> string" where
  "showInt i = (if i < 0 then CHR ''-'' # showNat (nat (- i)) else showNat (nat i))"

text \<open>
  The facts of a decoded revision, one record per relation kind, with the fields the
  routes read (\<open>subject_id\<close>, \<open>crt_type\<close>, \<open>prsn_id\<close>, \<open>position\<close>, \<open>crt_id\<close>);
  each field name carries the initials of its kind, since a field name is a constant. The
  fields are numeric, so the unary plus of the source is the identity on them. The types
  \<open>CharacterSubjectRev\<close>, \<open>CharacterPersonRev\<close>, \<open>PersonSubjectRev\<close> and
  \<open>PersonCharacterRev\<close> are the \<open>Object.values\<close> of these.
\<close>

record CharacterSubjectRev =
  cs_subject_id :: int
  cs_crt_type :: int

record CharacterPersonRev =
  cp_subject_id :: int
  cp_prsn_id :: int

record PersonSubjectRev =
  ps_subject_id :: int
  ps_position :: int

record PersonCharacterRev =
  pc_subject_id :: int
  pc_crt_id :: int

text \<open>The entries of the four responses.\<close>

record CharacterSubjectRelationWiki =
  cs_subjectName :: string
  cs_subjectId :: int
  cs_characterType :: int

record CharacterPersonRelationWiki =
  cp_subjectName :: string
  cp_subjectId :: int
  cp_personName :: string
  cp_personId :: int

record PersonSubjectRelationWiki =
  ps_subjectName :: string
  ps_subjectId :: int
  ps_position_out :: int

record PersonCharacterRelationWiki =
  pc_subjectName :: string
  pc_subjectId :: int
  pc_characterName :: string
  pc_characterId :: int

text \<open>\<open>m[id]?.name || ''\<close>: the name of a fetched record, or the empty string.\<close>

definition nameOrEmpty :: "(int \<rightharpoonup> SlimEntity) \<Rightarrow> int \<Rightarrow> string" where
  "nameOrEmpty m i = (case m i of Some e \<Rightarrow> name e | None \<Rightarrow> [])"

text \<open>
  The steps the four handlers share: the row of the revision (\<open>NotFoundError\<close> when
  there is none), its blob (\<open>NotFoundError\<close> when there is none), the deserialized
  record, and its entry for the revision id. \<open>RevText.deserialize\<close> (of
  \<open>lib/orm/entity\<close>, not among the sources) is a parameter; it gives nothing on a blob
  it cannot read, which is a \<open>DecodeError\<close>.
  \<open>Object.values\<close> of a missing entry is a \<open>TypeError\<close>.
\<close>

definition loadRevContent ::
  "(string \<Rightarrow> (int \<rightharpoonup> 'a list) option) \<Rightarrow> database \<Rightarrow> int \<Rightarrow> lookup list \<times> (error + 'a list)" where
  "loadRevContent deserialize db revisionID =
     (case find (\<lambda>r. revId r = revisionID) (revHistoryTable db) of
        None \<Rightarrow>
          ([SelectRevHistoryById revisionID],
           Inl (NotFoundError (''revision '' @ showInt revisionID)))
      | Some r \<Rightarrow>
          (case revTextTable db (revTextId r) of
             None \<Rightarrow>
               ([SelectRevHistoryById revisionID, SelectRevText (revTextId r)],
                Inl (NotFoundError (''RevText '' @ showInt (revTextId r))))
           | Some revText \<Rightarrow>
               ([SelectRevHistoryById revisionID, SelectRevText (revTextId r),
                 DeserializeRevText revText],
                (case deserialize revText of
                   None \<Rightarrow> Inl DecodeError
                 | Some revRecord \<Rightarrow>
                     (case revRecord revisionID of
                        None \<Rightarrow> Inl (TypeError ''Cannot convert undefined or null to object'')
                      | Some revContent \<Rightarrow> Inr revContent)))))"

definition getCharacterSubjectRevision ::
  "(string \<Rightarrow> (int \<rightharpoonup> CharacterSubjectRev list) option) \<Rightarrow> database \<Rightarrow> int \<Rightarrow>
     lookup list \<times> (error + CharacterSubjectRelationWiki list)" where
  "getCharacterSubjectRevision deserialize db revisionID =
     (case loadRevContent deserialize db revisionID of
        (tr, Inl e) \<Rightarrow> (tr, Inl e)
      | (tr, Inr revContent) \<Rightarrow>
          (let subjects = fetchSlimSubjectsByIDs db (map cs_subject_id revContent);
               relatedData = map (\<lambda>x.
                 \<lparr> cs_subjectName = nameOrEmpty subjects (cs_subject_id x),
                   cs_subjectId = cs_subject_id x,
                   cs_characterType = cs_crt_type x \<rparr>) revContent
           in (tr @ [FetchSlimSubjects (map cs_subject_id revContent)], Inr relatedData)))"

definition getCharacterPersonRevision ::
  "(string \<Rightarrow> (int \<rightharpoonup> CharacterPersonRev list) option) \<Rightarrow> database \<Rightarrow> int \<Rightarrow>
     lookup list \<times> (error + CharacterPersonRelationWiki list)" where
  "getCharacterPersonRevision deserialize db revisionID =
     (case loadRevContent deserialize db revisionID of
        (tr, Inl e) \<Rightarrow> (tr, Inl e)
      | (tr, Inr revContent) \<Rightarrow>
          (let subjects = fetchSlimSubjectsByIDs db (map cp_subject_id revContent);
               persons = fetchSlimPersonsByIDs db (map cp_prsn_id revContent);
               relatedData = map (\<lambda>x.
                 \<lparr> cp_subjectName = nameOrEmpty subjects (cp_subject_id x),
                   cp_subjectId = cp_subject_id x,
                   cp_personName = nameOrEmpty persons (cp_prsn_id x),
                   cp_personId = cp_prsn_id x \<rparr>) revContent
           in (tr @ [FetchSlimSubjects (map cp_subject_id revContent),
                     FetchSlimPersons (map cp_prsn_id revContent)], Inr relatedData)))"

definition getPersonSubjectRevision ::
  "(string \<Rightarrow> (int \<rightharpoonup> PersonSubjectRev list) option) \<Rightarrow> database \<Rightarrow> int \<Rightarrow>
     lookup list \<times> (error + PersonSubjectRelationWiki list)" where
  "getPersonSubjectRevision deserialize db revisionID =
     (case loadRevContent deserialize db revisionID of
        (tr, Inl e) \<Rightarrow> (tr, Inl e)
      | (tr, Inr revContent) \<Rightarrow>
          (let subjects = fetchSlimSubjectsByIDs db (map ps_subject_id revContent);
               relatedData = map (\<lambda>x.
                 \<lparr> ps_subjectName = nameOrEmpty subjects (ps_subject_id x),
                   ps_subjectId = ps_subject_id x,
                   ps_position_out = ps_position x \<rparr>) revContent
           in (tr @ [FetchSlimSubjects (map ps_subject_id revContent)], Inr relatedData)))"

definition getPersonCharacterRevision ::
  "(string \<Rightarrow> (int \<rightharpoonup> PersonCharacterRev list) option) \<Rightarrow> database \<Rightarrow> int \<Rightarrow>
     lookup list \<times> (error + PersonCharacterRelationWiki list)" where
  "getPersonCharacterRevision deserialize db revisionID =
     (case loadRevContent deserialize db revisionID of
        (tr, Inl e) \<Rightarrow> (tr, Inl e)
      | (tr, Inr revContent) \<Rightarrow>
          (let subjects = fetchSlimSubjectsByIDs db (map pc_subject_id revContent);
               characters = fetchSlimCharactersByIDs db (map pc_crt_id revContent);
               relatedData = map (\<lambda>x.
                 \<lparr> pc_subjectName = nameOrEmpty subjects (pc_subject_id x),
                   pc_subjectId = pc_subject_id x,
                   pc_characterName = nameOrEmpty characters (pc_crt_id x),
                   pc_characterId = pc_crt_id x \<rparr>) revContent
           in (tr @ [FetchSlimSubjects (map pc_subject_id revContent),
                     FetchSlimCharacters (map pc_crt_id revContent)], Inr relatedData)))"

section \<open>The expected-revision check\<close>

text \<open>
  Modelled from the spec: \<open>matchExpected\<close> and \<open>WikiChangedError\<close> (of \<open>lib/wiki.ts\<close>)
  are not among the sources. The expected field set is a partial mapping from field name
  to value, kept as the list of its entries; the current values are a mapping from field
  name to value. The check fails with \<open>WikiChangedError\<close> when a field present in the
  expected set does not equal the corresponding current field, and skips the fields that
  are absent from it. The description lists, for each mismatched field, a header with the
  field name, the expected value on a line prefixed \<open>-\<close> and the current value on a
  line prefixed \<open>+\<close>, in the layout of the example that the route's schema gives.
\<close>

definition newline :: string where
  "newline = [CHR 0x0A]"

definition tab :: string where
  "tab = [CHR 0x09]"

definition diffEntry :: "string \<Rightarrow> string \<Rightarrow> string \<Rightarrow> string" where
  "diffEntry field expected current =
     ''Index: '' @ field @ newline @
     replicate 67 (CHR ''='') @ newline @
     ''--- '' @ field @ tab @ ''expected'' @ newline @
     ''+++ '' @ field @ tab @ ''current'' @ newline @
     ''@@ -1,1 +1,1 @@'' @ newline @
     ''-'' @ expected @ newline @
     ''+'' @ current @ newline"

definition mismatches :: "(string \<times> string) list \<Rightarrow> (string \<Rightarrow> string) \<Rightarrow> (string \<times> string) list" where
  "mismatches expected current = filter (\<lambda>(field, v). current field \<noteq> v) expected"

definition matchExpected :: "(string \<times> string) list \<Rightarrow> (string \<Rightarrow> string) \<Rightarrow> error + unit" where
  "matchExpected expected current =
     (case mismatches expected current of
        [] \<Rightarrow> Inr ()
      | ms \<Rightarrow> Inl (WikiChangedError
                (concat (map (\<lambda>(field, v). diffEntry field v (current field)) ms))))"

section \<open>The person routes\<close>

text \<open>
  A row of the person table, with the columns the routes read; the primary key \<open>id\<close>
  is the key of the table. \<open>lock\<close> and \<open>redirect\<close> are numbers, read for their
  truthiness.
\<close>

record Person =
  person_name :: string
  person_type :: int
  person_infobox :: string
  person_summary :: string
  person_img :: string
  person_lock :: int
  person_redirect :: int

record PersonWikiInfo =
  wiki_id :: int
  wiki_name :: string
  wiki_typeID :: int
  wiki_infobox :: string
  wiki_summary :: string

text \<open>\<open>GET /persons/:personID\<close>, the current wiki information of a person.\<close>

definition getPersonWikiInfo :: "(int \<rightharpoonup> Person) \<Rightarrow> int \<Rightarrow> error + PersonWikiInfo" where
  "getPersonWikiInfo personRepo personID =
     (case (case personRepo personID of
              Some p \<Rightarrow> if person_redirect p = 0 then Some p else None
            | None \<Rightarrow> None) of
        None \<Rightarrow> Inl (NotFoundError (''person '' @ showInt personID))
      | Some p \<Rightarrow>
          if person_lock p \<noteq> 0 then Inl (NotAllowedError ''edit a locked person'')
          else Inr \<lparr> wiki_id = personID,
                     wiki_name = person_name p,
                     wiki_typeID = person_type p,
                     wiki_infobox = person_infobox p,
                     wiki_summary = person_summary p \<rparr>)"

text \<open>\<open>t.Partial(PersonEdit)\<close>: each of the three fields may be absent.\<close>

record PersonEdit =
  edit_name :: "string option"
  edit_infobox :: "string option"
  edit_summary :: "string option"

record PatchBody =
  body_commitMessage :: string
  body_expectedRevision :: PersonEdit
  body_person :: PersonEdit

record Auth =
  userID :: int
  mono_edit :: bool

text \<open>The argument of \<open>createRevision\<close> for a person edit.\<close>

record PersonRev =
  crt_name :: string
  crt_infobox :: string
  crt_summary :: string
  extra_img :: string

record Revision =
  rev_mid :: int
  rev_type :: RevType
  rev_content :: PersonRev
  rev_creator :: int
  rev_comment :: string

text \<open>
  The write side of the database: the person table and the revision log. A write may be
  refused by the database; \<open>faults\<close> says which ones are.
\<close>

record store =
  persons :: "int \<rightharpoonup> Person"
  revisions :: "Revision list"

record faults =
  saveFails :: bool
  createRevisionFails :: bool

text \<open>
  \<open>AppDataSource.transaction\<close>, a database transaction around a callback: the callback
  runs on the transaction's view of the store; when it throws, its writes are rolled back
  and the error is rethrown, otherwise they are committed.
\<close>

definition transaction :: "('s \<Rightarrow> error + 's \<times> 'a) \<Rightarrow> 's \<Rightarrow> 's \<times> (error + 'a)" where
  "transaction body st =
     (case body st of
        Inl e \<Rightarrow> (st, Inl e)
      | Inr (st', v) \<Rightarrow> (st', Inr v))"

definition save :: "faults \<Rightarrow> int \<Rightarrow> Person \<Rightarrow> store \<Rightarrow> error + store" where
  "save f personID p t =
     (if saveFails f then Inl DatabaseError
      else Inr (t\<lparr> persons := (persons t)(personID \<mapsto> p) \<rparr>))"

text \<open>
  Modelled from the spec: \<open>createRevision\<close> (of \<open>lib/orm/entity\<close>) is not among the
  sources. The revision store is an append-only log; recording a revision appends one row.
\<close>

definition createRevision :: "faults \<Rightarrow> store \<Rightarrow> Revision \<Rightarrow> error + store" where
  "createRevision f t r =
     (if createRevisionFails f then Inl DatabaseError
      else Inr (t\<lparr> revisions := revisions t @ [r] \<rparr>))"

text \<open>The two objects handed to \<open>matchExpected\<close> by the person edit.\<close>

definition expectedFields :: "PersonEdit \<Rightarrow> (string \<times> string) list" where
  "expectedFields e =
     (case edit_name e of Some v \<Rightarrow> [(''name'', v)] | None \<Rightarrow> []) @
     (case edit_infobox e of Some v \<Rightarrow> [(''infobox'', v)] | None \<Rightarrow> []) @
     (case edit_summary e of Some v \<Rightarrow> [(''summary'', v)] | None \<Rightarrow> [])"

definition currentFields :: "Person \<Rightarrow> string \<Rightarrow> string" where
  "currentFields p =
     (\<lambda>_. [])(''name'' := person_name p, ''infobox'' := person_infobox p,
              ''summary'' := person_summary p)"

text \<open>\<open>p.f = input.f ?? p.f\<close> for the three fields.\<close>

definition applyEdit :: "PersonEdit \<Rightarrow> Person \<Rightarrow> Person" where
  "applyEdit input p =
     p\<lparr> person_infobox := (case edit_infobox input of Some v \<Rightarrow> v | None \<Rightarrow> person_infobox p),
        person_name := (case edit_name input of Some v \<Rightarrow> v | None \<Rightarrow> person_name p),
        person_summary := (case edit_summary input of Some v \<Rightarrow> v | None \<Rightarrow> person_summary p) \<rparr>"

definition personRevision :: "Auth \<Rightarrow> string \<Rightarrow> int \<Rightarrow> Person \<Rightarrow> Revision" where
  "personRevision auth message personID p =
     \<lparr> rev_mid = personID,
       rev_type = personEdit,
       rev_content = \<lparr> crt_name = person_name p, crt_infobox = person_infobox p,
                       crt_summary = person_summary p, extra_img = person_img p \<rparr>,
       rev_creator = userID auth,
       rev_comment = message \<rparr>"

text \<open>The callback of the transaction of \<open>PATCH /persons/:personID\<close>.\<close>

definition patchPersonInfoBody ::
  "faults \<Rightarrow> Auth \<Rightarrow> PatchBody \<Rightarrow> int \<Rightarrow> store \<Rightarrow> error + store \<times> unit" where
  "patchPersonInfoBody f auth body personID t =
     (case persons t personID of
        None \<Rightarrow> Inl (NotFoundError (''person '' @ showInt personID))
      | Some p \<Rightarrow>
          if person_lock p \<noteq> 0 \<or> person_redirect p \<noteq> 0 then Inl LockedError
          else
            (case matchExpected (expectedFields (body_expectedRevision body)) (currentFields p) of
               Inl e \<Rightarrow> Inl e
             | Inr _ \<Rightarrow>
                 (let p' = applyEdit (body_person body) p in
                  case save f personID p' t of
                    Inl e \<Rightarrow> Inl e
                  | Inr t1 \<Rightarrow>
                      (case createRevision f t1
                              (personRevision auth (body_commitMessage body) personID p') of
                         Inl e \<Rightarrow> Inl e
                       | Inr t2 \<Rightarrow> Inr (t2, ())))))"

text \<open>
  The handler: the permission check, then the transaction. (The login check of the
  route's \<open>preHandler\<close> runs before the handler and is not part of it.)
\<close>

definition patchPersonInfo ::
  "faults \<Rightarrow> Auth \<Rightarrow> PatchBody \<Rightarrow> int \<Rightarrow> store \<Rightarrow> store \<times> (error + unit)" where
  "patchPersonInfo f auth body personID st =
     (if \<not> mono_edit auth then (st, Inl (NotAllowedError ''edit person''))
      else transaction (patchPersonInfoBody f auth body personID) st)"

section \<open>Sample data\<close>

text \<open>
  A small database on which the properties below are run: entity 7 has the revisions 3
  and 5 of kind \<open>characterSubjectRelation\<close> and the revision 4 of kind \<open>personEdit\<close>;
  user 1 exists and user 2 does not; subject 11 exists and subject 12 does not.
\<close>

definition sampleRow :: "int \<Rightarrow> RevType \<Rightarrow> int \<Rightarrow> int \<Rightarrow> chiiRevHistory" where
  "sampleRow i ty mid who =
     \<lparr> revId = i, revType = ty, revMid = mid, revTextId = 10 * i, createdAt = 1000 + i,
       revCreator = who, revEditSummary = ''edit'' \<rparr>"

definition sampleDb :: database where
  "sampleDb =
     \<lparr> revHistoryTable =
         [sampleRow 3 characterSubjectRelation 7 1,
          sampleRow 9 characterSubjectRelation 8 1,
          sampleRow 5 characterSubjectRelation 7 2,
          sampleRow 4 personEdit 7 1],
       revTextTable = [30 \<mapsto> ''blob''],
       userTable = [1 \<mapsto> \<lparr> username = ''alice'' \<rparr>],
       subjectTable = [11 \<mapsto> \<lparr> name = ''Subject'' \<rparr>],
       personTable = Map.empty,
       characterTable = Map.empty \<rparr>"

definition sampleGhostUser :: "int \<Rightarrow> SlimUser" where
  "sampleGhostUser i = \<lparr> username = ''ghost'' @ showInt i \<rparr>"

definition sampleDeserialize :: "'a list \<Rightarrow> string \<Rightarrow> (int \<rightharpoonup> 'a list) option" where
  "sampleDeserialize facts blob = (if blob = ''blob'' then Some [3 \<mapsto> facts] else None)"

definition samplePerson :: Person where
  "samplePerson =
     \<lparr> person_name = ''A'', person_type = 1, person_infobox = ''box'', person_summary = ''sum'',
       person_img = ''img'', person_lock = 0, person_redirect = 0 \<rparr>"

definition sampleStore :: store where
  "sampleStore = \<lparr> persons = [1 \<mapsto> samplePerson], revisions = [] \<rparr>"

definition sampleAuth :: Auth where
  "sampleAuth = \<lparr> userID = 42, mono_edit = True \<rparr>"

definition noEdit :: PersonEdit where
  "noEdit = \<lparr> edit_name = None, edit_infobox = None, edit_summary = None \<rparr>"

definition noFaults :: faults where
  "noFaults = \<lparr> saveFails = False, createRevisionFails = False \<rparr>"


section \<open>Properties of the relation history route\<close>

lemma paramsSchema_iff:
  "paramsSchema v = (\<exists>n::int. 1 \<le> n \<and> v = JNumber (of_int n))"
proof (cases v)
  case (JNumber q)
  show ?thesis
  proof
    assume "paramsSchema v"
    then have i: "of_int \<lfloor>q\<rfloor> = q" and p: "1 \<le> q"
      using JNumber by (simp_all add: paramsSchema_def isInteger_def)
    from p i have "1 \<le> \<lfloor>q\<rfloor>" by linarith
    with i JNumber show "\<exists>n::int. 1 \<le> n \<and> v = JNumber (of_int n)" by auto
  next
    assume "\<exists>n::int. 1 \<le> n \<and> v = JNumber (of_int n)"
    then show "paramsSchema v"
      by (auto simp: paramsSchema_def isInteger_def)
  qed
qed (simp_all add: paramsSchema_def)

lemma querystringSchema_bounds:
  assumes "querystringSchema query"
  shows "1 \<le> limitOrDefault query" and "limitOrDefault query \<le> 100"
    and "0 \<le> offsetOrDefault query"
  using assms
  by (auto simp: querystringSchema_def limitOrDefault_def offsetOrDefault_def
      split: option.splits)

lemma countDistinct_primary_key:
  assumes "distinct (map revId (revHistoryTable db))"
  shows "countDistinctRevId (matchingRevisions db tid revTypes) =
           length (matchingRevisions db tid revTypes)"
proof -
  from assms have "distinct (map revId (matchingRevisions db tid revTypes))"
    unfolding matchingRevisions_def by (rule distinct_map_filter)
  then show ?thesis
    by (simp add: countDistinctRevId_def distinct_remdups_id)
qed

lemma length_selectRevHistory:
  assumes "0 \<le> lmt" and "0 \<le> off"
  shows "int (length (selectRevHistory db tid revTypes off lmt)) =
           min lmt (max 0 (int (length (matchingRevisions db tid revTypes)) - off))"
proof -
  have "length (selectRevHistory db tid revTypes off lmt) =
          min (nat lmt) (length (matchingRevisions db tid revTypes) - nat off)"
    by (simp add: selectRevHistory_def orderByRevIdDesc_def min.commute)
  with assms show ?thesis by linarith
qed

lemma relationHistoryHandler_page:
  assumes "0 \<le> limitOrDefault query" and "0 \<le> offsetOrDefault query"
  shows "relationHistoryHandler idName revTypes ghostUser db (JNumber tid) query =
     ([CountRevHistory tid revTypes,
       SelectRevHistory tid revTypes (offsetOrDefault query) (limitOrDefault query),
       FetchSlimUsers (map revCreator
         (selectRevHistory db tid revTypes (offsetOrDefault query) (limitOrDefault query)))],
      Inr \<lparr> total = countDistinctRevId (matchingRevisions db tid revTypes),
            data = map (toSummary
                     (fetchSlimUsersByIDs db (map revCreator
                        (selectRevHistory db tid revTypes (offsetOrDefault query)
                           (limitOrDefault query))))
                     ghostUser)
                   (selectRevHistory db tid revTypes (offsetOrDefault query)
                      (limitOrDefault query)) \<rparr>)"
  using assms by (simp add: relationHistoryHandler_def Let_def)

text \<open>
  The route hands a request to the handler exactly when the target id is a positive
  integer and the query string passes its schema.
\<close>

lemma relationHistoryRoute_accepts:
  assumes "1 \<le> tid" and "querystringSchema query"
  shows "relationHistoryRoute idName revTypes ghostUser db (JNumber (of_int tid)) query =
           relationHistoryHandler idName revTypes ghostUser db (JNumber (of_int tid)) query"
proof -
  have "paramsSchema (JNumber (of_int tid))"
    using assms(1) by (auto simp: paramsSchema_iff)
  with assms(2) show ?thesis by (simp add: relationHistoryRoute_def)
qed

lemma relationHistoryRoute_Inr:
  assumes "snd (relationHistoryRoute idName revTypes ghostUser db targetId query) = Inr res"
  shows "snd (relationHistoryHandler idName revTypes ghostUser db targetId query) = Inr res"
  using assms by (simp add: relationHistoryRoute_def split: if_splits)

text \<open>
  C1. For a target id with N matching revisions, a limit l in 1..100 (the submitted one,
  or 20 when none is submitted) and an offset of at least 0 (the submitted one, or 0 when
  none is submitted), the handler returns total = N, whatever the limit and the offset,
  and a data sequence of length min(l, max(0, N - offset)); so the data is empty when the
  offset is N or more. The revision id is the primary key of the revision table.
\<close>

theorem relationHistory_total_and_length:
  assumes "distinct (map revId (revHistoryTable db))"
    and "limit query = Some l \<or> limit query = None \<and> l = 20"
    and "1 \<le> l" and "l \<le> 100"
    and "offset query = Some off \<or> offset query = None \<and> off = 0"
    and "0 \<le> off"
  shows "\<exists>tr res.
           relationHistoryHandler idName revTypes ghostUser db (JNumber tid) query
             = (tr, Inr res) \<and>
           total res = length (matchingRevisions db tid revTypes) \<and>
           int (length (data res)) =
             min l (max 0 (int (length (matchingRevisions db tid revTypes)) - off))"
proof -
  from assms(2) have l: "limitOrDefault query = l"
    by (auto simp: limitOrDefault_def)
  from assms(5) have off: "offsetOrDefault query = off"
    by (auto simp: offsetOrDefault_def)
  have b: "0 \<le> limitOrDefault query" "0 \<le> offsetOrDefault query"
    using assms(3,6) l off by simp_all
  have len: "int (length (selectRevHistory db tid revTypes off l)) =
               min l (max 0 (int (length (matchingRevisions db tid revTypes)) - off))"
    using assms(3,6) by (intro length_selectRevHistory) simp_all
  show ?thesis
    unfolding relationHistoryHandler_page[OF b] l off
    using len by (simp add: countDistinct_primary_key[OF assms(1)])
qed

theorem relationHistory_total_and_length_witness:
  "distinct (map revId (revHistoryTable sampleDb)) \<and>
   length (matchingRevisions sampleDb 7 [characterSubjectRelation]) = 2 \<and>
   (\<exists>tr res.
      relationHistoryHandler ''characterID'' [characterSubjectRelation] sampleGhostUser sampleDb
        (JNumber 7) \<lparr> limit = Some 1, offset = Some 0 \<rparr> = (tr, Inr res) \<and>
      total res = 2 \<and> length (data res) = 1) \<and>
   (\<exists>tr res.
      relationHistoryHandler ''characterID'' [characterSubjectRelation] sampleGhostUser sampleDb
        (JNumber 7) \<lparr> limit = Some 100, offset = Some 1 \<rparr> = (tr, Inr res) \<and>
      total res = 2 \<and> length (data res) = 1) \<and>
   (\<exists>tr res.
      relationHistoryHandler ''characterID'' [characterSubjectRelation] sampleGhostUser sampleDb
        (JNumber 7) \<lparr> limit = None, offset = None \<rparr> = (tr, Inr res) \<and>
      total res = 2 \<and> length (data res) = 2) \<and>
   (\<exists>tr res.
      relationHistoryHandler ''characterID'' [characterSubjectRelation] sampleGhostUser sampleDb
        (JNumber 7) \<lparr> limit = Some 20, offset = Some 5 \<rparr> = (tr, Inr res) \<and>
      total res = 2 \<and> length (data res) = 0)"
proof -
  have pk: "distinct (map revId (revHistoryTable sampleDb))"
    by (simp add: sampleDb_def sampleRow_def)
  have n: "length (matchingRevisions sampleDb 7 [characterSubjectRelation]) = 2"
    by (simp add: matchingRevisions_def sampleDb_def sampleRow_def)
  from relationHistory_total_and_length[OF pk, of "\<lparr> limit = Some 1, offset = Some 0 \<rparr>"
      1 0 "''characterID''" "[characterSubjectRelation]" sampleGhostUser 7]
  have a: "\<exists>tr res.
      relationHistoryHandler ''characterID'' [characterSubjectRelation] sampleGhostUser sampleDb
        (JNumber 7) \<lparr> limit = Some 1, offset = Some 0 \<rparr> = (tr, Inr res) \<and>
      total res = 2 \<and> length (data res) = 1"
    by (simp add: n)
  from relationHistory_total_and_length[OF pk, of "\<lparr> limit = Some 100, offset = Some 1 \<rparr>"
      100 1 "''characterID''" "[characterSubjectRelation]" sampleGhostUser 7]
  have b: "\<exists>tr res.
      relationHistoryHandler ''characterID'' [characterSubjectRelation] sampleGhostUser sampleDb
        (JNumber 7) \<lparr> limit = Some 100, offset = Some 1 \<rparr> = (tr, Inr res) \<and>
      total res = 2 \<and> length (data res) = 1"
    by (simp add: n)
  from relationHistory_total_and_length[OF pk, of "\<lparr> limit = None, offset = None \<rparr>"
      20 0 "''characterID''" "[characterSubjectRelation]" sampleGhostUser 7]
  have c: "\<exists>tr res.
      relationHistoryHandler ''characterID'' [characterSubjectRelation] sampleGhostUser sampleDb
        (JNumber 7) \<lparr> limit = None, offset = None \<rparr> = (tr, Inr res) \<and>
      total res = 2 \<and> length (data res) = 2"
    by (simp add: n)
  from relationHistory_total_and_length[OF pk, of "\<lparr> limit = Some 20, offset = Some 5 \<rparr>"
      20 5 "''characterID''" "[characterSubjectRelation]" sampleGhostUser 7]
  have d: "\<exists>tr res.
      relationHistoryHandler ''characterID'' [characterSubjectRelation] sampleGhostUser sampleDb
        (JNumber 7) \<lparr> limit = Some 20, offset = Some 5 \<rparr> = (tr, Inr res) \<and>
      total res = 2 \<and> length (data res) = 0"
    by (simp add: n)
  from pk n a b c d show ?thesis by (intro conjI)
qed

lemma orderByRevIdDesc_strict:
  assumes "distinct (map revId rows)"
  shows "sorted_wrt (\<lambda>x y. revId y < revId x) (orderByRevIdDesc rows)"
proof -
  have "sorted (map revId (sort_key revId rows))" by simp
  moreover have "distinct (map revId (sort_key revId rows))"
    using assms by (simp add: distinct_map)
  ultimately have "sorted_wrt (<) (map revId (sort_key revId rows))"
    by (simp add: strict_sorted_iff)
  then have "sorted_wrt (\<lambda>x y. revId x < revId y) (sort_key revId rows)"
    by (simp add: sorted_wrt_map)
  then show ?thesis
    by (simp add: orderByRevIdDesc_def sorted_wrt_rev)
qed

lemma selectRevHistory_strict:
  assumes "distinct (map revId (revHistoryTable db))"
  shows "sorted_wrt (\<lambda>x y. revId y < revId x) (selectRevHistory db tid revTypes off lmt)"
proof -
  from assms have "distinct (map revId (matchingRevisions db tid revTypes))"
    unfolding matchingRevisions_def by (rule distinct_map_filter)
  then have "sorted_wrt (\<lambda>x y. revId y < revId x)
               (orderByRevIdDesc (matchingRevisions db tid revTypes))"
    by (rule orderByRevIdDesc_strict)
  then show ?thesis
    unfolding selectRevHistory_def by (intro sorted_wrt_take sorted_wrt_drop)
qed

lemma relationHistoryHandler_data:
  assumes "snd (relationHistoryHandler idName revTypes ghostUser db targetId query) = Inr res"
  shows "\<exists>tid users. targetId = JNumber tid \<and>
           data res = map (toSummary users ghostUser)
             (selectRevHistory db tid revTypes (offsetOrDefault query) (limitOrDefault query))"
  using assms
  by (auto simp: relationHistoryHandler_def Let_def split: if_splits jsvalue.splits)

text \<open>
  C4. In every result of the relation history handler (so in every result of the route)
  the data sequence is ordered by revision id strictly descending: each entry has a
  greater id than the entry after it. The revision id is the primary key of the revision
  table.
\<close>

theorem relationHistory_descending:
  assumes "distinct (map revId (revHistoryTable db))"
    and "snd (relationHistoryHandler idName revTypes ghostUser db targetId query) = Inr res"
    and "Suc i < length (data res)"
  shows "summaryId (data res ! Suc i) < summaryId (data res ! i)"
proof -
  from relationHistoryHandler_data[OF assms(2)] obtain tid users where
    d: "data res = map (toSummary users ghostUser)
          (selectRevHistory db tid revTypes (offsetOrDefault query) (limitOrDefault query))"
    by blast
  let ?h = "selectRevHistory db tid revTypes (offsetOrDefault query) (limitOrDefault query)"
  have len: "Suc i < length ?h" using assms(3) d by simp
  have "sorted_wrt (\<lambda>x y. revId y < revId x) ?h"
    by (rule selectRevHistory_strict[OF assms(1)])
  from sorted_wrt_nth_less[OF this, of i "Suc i"] len
  have "revId (?h ! Suc i) < revId (?h ! i)" by simp
  then show ?thesis
    using len d by (simp add: toSummary_def)
qed

theorem relationHistory_descending_witness:
  "distinct (map revId (revHistoryTable sampleDb)) \<and>
   snd (relationHistoryHandler ''characterID'' [characterSubjectRelation] sampleGhostUser
          sampleDb (JNumber 7) \<lparr> limit = None, offset = None \<rparr>) =
     Inr \<lparr> total = 2,
           data = [\<lparr> summaryId = 5, creatorUsername = ''ghost2'', commitMessage = ''edit'',
                     summaryCreatedAt = 1005 \<rparr>,
                   \<lparr> summaryId = 3, creatorUsername = ''alice'', commitMessage = ''edit'',
                     summaryCreatedAt = 1003 \<rparr>] \<rparr> \<and>
   summaryId ([\<lparr> summaryId = 5, creatorUsername = ''ghost2'', commitMessage = ''edit'',
                 summaryCreatedAt = 1005 \<rparr>,
               \<lparr> summaryId = 3, creatorUsername = ''alice'', commitMessage = ''edit'',
                 summaryCreatedAt = 1003 \<rparr>] ! Suc 0)
     < summaryId ([\<lparr> summaryId = 5, creatorUsername = ''ghost2'', commitMessage = ''edit'',
                     summaryCreatedAt = 1005 \<rparr>,
                   \<lparr> summaryId = 3, creatorUsername = ''alice'', commitMessage = ''edit'',
                     summaryCreatedAt = 1003 \<rparr>] ! 0)"
proof -
  have pk: "distinct (map revId (revHistoryTable sampleDb))"
    by (simp add: sampleDb_def sampleRow_def)
  have r: "snd (relationHistoryHandler ''characterID'' [characterSubjectRelation] sampleGhostUser
             sampleDb (JNumber 7) \<lparr> limit = None, offset = None \<rparr>) =
     Inr \<lparr> total = 2,
           data = [\<lparr> summaryId = 5, creatorUsername = ''ghost2'', commitMessage = ''edit'',
                     summaryCreatedAt = 1005 \<rparr>,
                   \<lparr> summaryId = 3, creatorUsername = ''alice'', commitMessage = ''edit'',
                     summaryCreatedAt = 1003 \<rparr>] \<rparr>"
    by code_simp
  from relationHistory_descending[OF pk r, of 0] pk r show ?thesis by simp
qed

text \<open>
  C5. A target id that is not a positive integer is rejected with \<open>InvalidArgument\<close>,
  and nothing is looked up: the trace of the route is empty.
\<close>

theorem relationHistory_invalid_targetId:
  assumes "\<not> (\<exists>n::int. 1 \<le> n \<and> targetId = JNumber (of_int n))"
  shows "relationHistoryRoute idName revTypes ghostUser db targetId query =
           ([], Inl InvalidArgument)"
proof -
  from assms have "\<not> paramsSchema targetId"
    by (simp only: paramsSchema_iff not_False_eq_True)
  then show ?thesis
    by (simp add: relationHistoryRoute_def)
qed

theorem relationHistory_invalid_targetId_witness:
  "relationHistoryRoute ''characterID'' [characterSubjectRelation] sampleGhostUser sampleDb
     (JNumber 0) \<lparr> limit = None, offset = None \<rparr> = ([], Inl InvalidArgument) \<and>
   relationHistoryRoute ''characterID'' [characterSubjectRelation] sampleGhostUser sampleDb
     (JNumber (- 3)) \<lparr> limit = None, offset = None \<rparr> = ([], Inl InvalidArgument) \<and>
   relationHistoryRoute ''characterID'' [characterSubjectRelation] sampleGhostUser sampleDb
     (JNumber (7 / 2)) \<lparr> limit = None, offset = None \<rparr> = ([], Inl InvalidArgument) \<and>
   relationHistoryRoute ''characterID'' [characterSubjectRelation] sampleGhostUser sampleDb
     (JString ''abc'') \<lparr> limit = None, offset = None \<rparr> = ([], Inl InvalidArgument)"
proof -
  have a: "\<not> (\<exists>n::int. 1 \<le> n \<and> JNumber 0 = JNumber (of_int n))" by simp
  have b: "\<not> (\<exists>n::int. 1 \<le> n \<and> JNumber (- 3) = JNumber (of_int n))" by auto
  have "(7 / 2 :: rat) \<noteq> of_int n" for n :: int
  proof
    assume "(7 / 2 :: rat) = of_int n"
    then have "(of_int 7 :: rat) = of_int (2 * n)" by simp
    then have "7 = 2 * n" by (simp only: of_int_eq_iff)
    then show False by presburger
  qed
  then have c: "\<not> (\<exists>n::int. 1 \<le> n \<and> JNumber (7 / 2) = JNumber (of_int n))" by simp
  have d: "\<not> (\<exists>n::int. 1 \<le> n \<and> JString ''abc'' = JNumber (of_int n))" by simp
  show ?thesis
    using relationHistory_invalid_targetId[OF a] relationHistory_invalid_targetId[OF b]
      relationHistory_invalid_targetId[OF c] relationHistory_invalid_targetId[OF d]
    by simp
qed

text \<open>
  C7. On a number as target id and a query string that passes its schema the handler
  does not fail, whatever the user table holds, and every row of the page whose editor id
  has no entry in the result of the bulk user lookup is returned with the user name of
  \<open>ghostUser\<close> of that editor id.
\<close>

theorem relationHistory_ghost_user:
  assumes "querystringSchema query"
  shows "\<exists>tr res.
           relationHistoryHandler idName revTypes ghostUser db (JNumber tid) query
             = (tr, Inr res) \<and>
           length (data res) =
             length (selectRevHistory db tid revTypes (offsetOrDefault query)
                       (limitOrDefault query)) \<and>
           (\<forall>i < length (data res).
              fetchSlimUsersByIDs db
                  (map revCreator (selectRevHistory db tid revTypes
                     (offsetOrDefault query) (limitOrDefault query)))
                  (revCreator (selectRevHistory db tid revTypes
                     (offsetOrDefault query) (limitOrDefault query) ! i)) = None \<longrightarrow>
              creatorUsername (data res ! i) =
                username (ghostUser (revCreator (selectRevHistory db tid revTypes
                     (offsetOrDefault query) (limitOrDefault query) ! i))))"
proof -
  have b: "0 \<le> limitOrDefault query" "0 \<le> offsetOrDefault query"
    using querystringSchema_bounds[OF assms] by simp_all
  show ?thesis
    by (simp add: relationHistoryHandler_page[OF b] toSummary_def)
qed

theorem relationHistory_ghost_user_witness:
  "\<exists>tr res.
     relationHistoryHandler ''characterID'' [characterSubjectRelation] sampleGhostUser sampleDb
       (JNumber 7) \<lparr> limit = None, offset = None \<rparr> = (tr, Inr res) \<and>
     length (data res) = 2 \<and>
     fetchSlimUsersByIDs sampleDb [2, 1] 2 = None \<and>
     creatorUsername (data res ! 0) = username (sampleGhostUser 2)"
proof -
  have q: "querystringSchema \<lparr> limit = None, offset = None \<rparr>"
    by (simp add: querystringSchema_def)
  have h: "selectRevHistory sampleDb 7 [characterSubjectRelation]
             (offsetOrDefault \<lparr> limit = None, offset = None \<rparr>)
             (limitOrDefault \<lparr> limit = None, offset = None \<rparr>) =
           [sampleRow 5 characterSubjectRelation 7 2, sampleRow 3 characterSubjectRelation 7 1]"
    by code_simp
  have f: "fetchSlimUsersByIDs sampleDb [2, 1] 2 = None"
    by code_simp
  have c: "revCreator (sampleRow 5 characterSubjectRelation 7 2) = 2"
    "revCreator (sampleRow 3 characterSubjectRelation 7 1) = 1"
    by (simp_all add: sampleRow_def)
  from relationHistory_ghost_user[OF q, of "''characterID''" "[characterSubjectRelation]"
      sampleGhostUser sampleDb 7]
  obtain tr res where
    r: "relationHistoryHandler ''characterID'' [characterSubjectRelation] sampleGhostUser
          sampleDb (JNumber 7) \<lparr> limit = None, offset = None \<rparr> = (tr, Inr res)"
    and l: "length (data res) =
              length [sampleRow 5 characterSubjectRelation 7 2,
                      sampleRow 3 characterSubjectRelation 7 1]"
    and g: "\<forall>i < length (data res).
              fetchSlimUsersByIDs sampleDb
                (map revCreator [sampleRow 5 characterSubjectRelation 7 2,
                                 sampleRow 3 characterSubjectRelation 7 1])
                (revCreator ([sampleRow 5 characterSubjectRelation 7 2,
                              sampleRow 3 characterSubjectRelation 7 1] ! i)) = None \<longrightarrow>
              creatorUsername (data res ! i) =
                username (sampleGhostUser
                  (revCreator ([sampleRow 5 characterSubjectRelation 7 2,
                                sampleRow 3 characterSubjectRelation 7 1] ! i)))"
    unfolding h by blast
  from l have l2: "length (data res) = 2" by simp
  from g[rule_format, of 0] l2 f
  have "creatorUsername (data res ! 0) = username (sampleGhostUser 2)"
    by (simp add: c)
  with r l2 f show ?thesis by blast
qed

section \<open>Properties of the revision detail routes\<close>

text \<open>The decimal rendering of an integer determines the integer.\<close>

lemma digit_cases:
  assumes "(a::nat) < 10"
  shows "a = 0 \<or> a = 1 \<or> a = 2 \<or> a = 3 \<or> a = 4 \<or> a = 5 \<or> a = 6 \<or> a = 7 \<or> a = 8 \<or> a = 9"
  using assms by arith

lemma digit_inj:
  assumes "a < 10" and "b < 10" and "''0123456789'' ! a = ''0123456789'' ! b"
  shows "a = b"
proof -
  have d: "distinct ''0123456789''" by simp
  have l: "length ''0123456789'' = 10" by simp
  from assms(1,2) l have "a < length ''0123456789''" "b < length ''0123456789''"
    by simp_all
  with d assms(3) show ?thesis by (simp only: nth_eq_iff_index_eq)
qed

lemma digit_not_minus: "a < 10 \<Longrightarrow> ''0123456789'' ! a \<noteq> CHR ''-''"
  by (drule digit_cases) (elim disjE; simp)

lemma showNat_nonempty: "showNat n \<noteq> []"
  by (subst showNat.simps) simp

lemma showNat_last: "last (showNat n) = ''0123456789'' ! (n mod 10)"
  by (subst showNat.simps) simp

lemma showNat_butlast: "butlast (showNat n) = (if n < 10 then [] else showNat (n div 10))"
  by (subst showNat.simps) simp

lemma showNat_inj: "showNat n = showNat m \<Longrightarrow> n = m"
proof (induction n arbitrary: m rule: showNat.induct)
  case (1 n)
  from "1.prems" have l: "''0123456789'' ! (n mod 10) = ''0123456789'' ! (m mod 10)"
    by (metis showNat_last)
  then have md: "n mod 10 = m mod 10"
    by (intro digit_inj) simp_all
  from "1.prems" have b: "butlast (showNat n) = butlast (showNat m)" by simp
  show ?case
  proof (cases "n < 10")
    case True
    with b have "m < 10"
      by (auto simp: showNat_butlast showNat_nonempty split: if_splits dest: sym)
    with True md show ?thesis by simp
  next
    case False
    with b have m: "\<not> m < 10"
      by (auto simp: showNat_butlast showNat_nonempty split: if_splits)
    with b False have "showNat (n div 10) = showNat (m div 10)"
      by (simp add: showNat_butlast)
    with "1.IH"[OF False] have "n div 10 = m div 10" by blast
    with md show ?thesis by (metis div_mult_mod_eq)
  qed
qed

lemma showNat_hd_not_minus: "hd (showNat n) \<noteq> CHR ''-''"
proof (induction n rule: showNat.induct)
  case (1 n)
  show ?case
  proof (cases "n < 10")
    case True
    then show ?thesis by (subst showNat.simps) (simp add: digit_not_minus)
  next
    case False
    with 1 show ?thesis
      by (subst showNat.simps) (simp add: showNat_nonempty)
  qed
qed

lemma showInt_inj: "showInt i = showInt j \<Longrightarrow> i = j"
proof -
  assume a: "showInt i = showInt j"
  have neq: "CHR ''-'' # showNat a \<noteq> showNat b" for a b
    using showNat_hd_not_minus[of b] by (metis list.sel(1))
  show "i = j"
  proof (cases "i < 0"; cases "j < 0")
    assume "i < 0" "j < 0"
    with a have "nat (- i) = nat (- j)" by (auto simp: showInt_def dest: showNat_inj)
    with \<open>i < 0\<close> \<open>j < 0\<close> show ?thesis by linarith
  next
    assume "i < 0" "\<not> j < 0"
    with a neq show ?thesis by (simp add: showInt_def)
  next
    assume "\<not> i < 0" "j < 0"
    with a neq[of "nat (- j)" "nat i"] show ?thesis by (simp add: showInt_def)
  next
    assume "\<not> i < 0" "\<not> j < 0"
    with a have "nat i = nat j" by (auto simp: showInt_def dest: showNat_inj)
    with \<open>\<not> i < 0\<close> \<open>\<not> j < 0\<close> show ?thesis by linarith
  qed
qed

lemma loadRevContent_no_row:
  assumes "\<forall>r \<in> set (revHistoryTable db). revId r \<noteq> revisionID"
  shows "loadRevContent deserialize db revisionID =
           ([SelectRevHistoryById revisionID],
            Inl (NotFoundError (''revision '' @ showInt revisionID)))"
proof -
  from assms have "find (\<lambda>r. revId r = revisionID) (revHistoryTable db) = None"
    by (simp add: find_None_iff)
  then show ?thesis by (simp add: loadRevContent_def)
qed

text \<open>
  C8. When the revision table has no row for the revision id, a positive safe integer,
  each of the four revision detail lookups fails with \<open>NotFoundError\<close> whose message is
  \<open>revision\<close> followed by the decimal digits of the id, a message that no other safe
  integer gives, and the only lookup made is the one for the row: the blob is neither
  read nor deserialized.
\<close>

theorem revisionDetail_not_found:
  assumes "\<forall>r \<in> set (revHistoryTable db). revId r \<noteq> revisionID"
    and "1 \<le> revisionID" and "revisionID \<le> maxSafeInteger"
  shows "getCharacterSubjectRevision d1 db revisionID =
           ([SelectRevHistoryById revisionID],
            Inl (NotFoundError (''revision '' @ showInt revisionID))) \<and>
         getCharacterPersonRevision d2 db revisionID =
           ([SelectRevHistoryById revisionID],
            Inl (NotFoundError (''revision '' @ showInt revisionID))) \<and>
         getPersonSubjectRevision d3 db revisionID =
           ([SelectRevHistoryById revisionID],
            Inl (NotFoundError (''revision '' @ showInt revisionID))) \<and>
         getPersonCharacterRevision d4 db revisionID =
           ([SelectRevHistoryById revisionID],
            Inl (NotFoundError (''revision '' @ showInt revisionID))) \<and>
         (\<forall>j. \<bar>j\<bar> \<le> maxSafeInteger \<and>
              NotFoundError (''revision '' @ showInt j) =
                NotFoundError (''revision '' @ showInt revisionID) \<longrightarrow> j = revisionID)"
  by (simp add: getCharacterSubjectRevision_def getCharacterPersonRevision_def
      getPersonSubjectRevision_def getPersonCharacterRevision_def
      loadRevContent_no_row[OF assms(1)] showInt_inj)

theorem revisionDetail_not_found_witness:
  "(500::int) \<le> maxSafeInteger \<and>
   getCharacterSubjectRevision (sampleDeserialize []) sampleDb 500 =
     ([SelectRevHistoryById 500], Inl (NotFoundError ''revision 500'')) \<and>
   getCharacterPersonRevision (sampleDeserialize []) sampleDb 500 =
     ([SelectRevHistoryById 500], Inl (NotFoundError ''revision 500'')) \<and>
   getPersonSubjectRevision (sampleDeserialize []) sampleDb 500 =
     ([SelectRevHistoryById 500], Inl (NotFoundError ''revision 500'')) \<and>
   getPersonCharacterRevision (sampleDeserialize []) sampleDb 500 =
     ([SelectRevHistoryById 500], Inl (NotFoundError ''revision 500''))"
proof -
  have a: "\<forall>r \<in> set (revHistoryTable sampleDb). revId r \<noteq> 500"
    by (simp add: sampleDb_def sampleRow_def)
  have s: "showInt 500 = ''500''" by code_simp
  have b: "(1::int) \<le> 500" "(500::int) \<le> maxSafeInteger"
    by (simp_all add: maxSafeInteger_def)
  from revisionDetail_not_found[OF a b, of "sampleDeserialize []" "sampleDeserialize []"
      "sampleDeserialize []" "sampleDeserialize []"]
  have "getCharacterSubjectRevision (sampleDeserialize []) sampleDb 500 =
     ([SelectRevHistoryById 500], Inl (NotFoundError ''revision 500'')) \<and>
   getCharacterPersonRevision (sampleDeserialize []) sampleDb 500 =
     ([SelectRevHistoryById 500], Inl (NotFoundError ''revision 500'')) \<and>
   getPersonSubjectRevision (sampleDeserialize []) sampleDb 500 =
     ([SelectRevHistoryById 500], Inl (NotFoundError ''revision 500'')) \<and>
   getPersonCharacterRevision (sampleDeserialize []) sampleDb 500 =
     ([SelectRevHistoryById 500], Inl (NotFoundError ''revision 500''))"
    by (simp only: s append.simps)
  with b(2) show ?thesis by blast
qed

lemma nameOrEmpty_absent: "m i = None \<Longrightarrow> nameOrEmpty m i = []"
  by (simp add: nameOrEmpty_def)

text \<open>
  C9. When the row of the revision, its blob, the deserialized record and its entry for
  the revision id are all there, each of the four lookups succeeds with one entry per
  fact of the decoded entry; the entry carries the numeric ids of its fact, and the name
  of a subject, person or character that is absent from the result of the bulk name fetch
  is the empty string.
\<close>

theorem revisionDetail_missing_names:
  assumes "find (\<lambda>r. revId r = revisionID) (revHistoryTable db) = Some r"
    and "revTextTable db (revTextId r) = Some revText"
  shows
    "(\<forall>revRecord facts.
        d1 revText = Some revRecord \<and> revRecord revisionID = Some facts \<longrightarrow>
        (\<exists>tr out. getCharacterSubjectRevision d1 db revisionID = (tr, Inr out) \<and>
           length out = length facts \<and>
           (\<forall>i < length facts.
              cs_subjectId (out ! i) = cs_subject_id (facts ! i) \<and>
              cs_characterType (out ! i) = cs_crt_type (facts ! i) \<and>
              (fetchSlimSubjectsByIDs db (map cs_subject_id facts) (cs_subject_id (facts ! i))
                 = None \<longrightarrow> cs_subjectName (out ! i) = [])))) \<and>
     (\<forall>revRecord facts.
        d2 revText = Some revRecord \<and> revRecord revisionID = Some facts \<longrightarrow>
        (\<exists>tr out. getCharacterPersonRevision d2 db revisionID = (tr, Inr out) \<and>
           length out = length facts \<and>
           (\<forall>i < length facts.
              cp_subjectId (out ! i) = cp_subject_id (facts ! i) \<and>
              cp_personId (out ! i) = cp_prsn_id (facts ! i) \<and>
              (fetchSlimSubjectsByIDs db (map cp_subject_id facts) (cp_subject_id (facts ! i))
                 = None \<longrightarrow> cp_subjectName (out ! i) = []) \<and>
              (fetchSlimPersonsByIDs db (map cp_prsn_id facts) (cp_prsn_id (facts ! i))
                 = None \<longrightarrow> cp_personName (out ! i) = [])))) \<and>
     (\<forall>revRecord facts.
        d3 revText = Some revRecord \<and> revRecord revisionID = Some facts \<longrightarrow>
        (\<exists>tr out. getPersonSubjectRevision d3 db revisionID = (tr, Inr out) \<and>
           length out = length facts \<and>
           (\<forall>i < length facts.
              ps_subjectId (out ! i) = ps_subject_id (facts ! i) \<and>
              ps_position_out (out ! i) = ps_position (facts ! i) \<and>
              (fetchSlimSubjectsByIDs db (map ps_subject_id facts) (ps_subject_id (facts ! i))
                 = None \<longrightarrow> ps_subjectName (out ! i) = [])))) \<and>
     (\<forall>revRecord facts.
        d4 revText = Some revRecord \<and> revRecord revisionID = Some facts \<longrightarrow>
        (\<exists>tr out. getPersonCharacterRevision d4 db revisionID = (tr, Inr out) \<and>
           length out = length facts \<and>
           (\<forall>i < length facts.
              pc_subjectId (out ! i) = pc_subject_id (facts ! i) \<and>
              pc_characterId (out ! i) = pc_crt_id (facts ! i) \<and>
              (fetchSlimSubjectsByIDs db (map pc_subject_id facts) (pc_subject_id (facts ! i))
                 = None \<longrightarrow> pc_subjectName (out ! i) = []) \<and>
              (fetchSlimCharactersByIDs db (map pc_crt_id facts) (pc_crt_id (facts ! i))
                 = None \<longrightarrow> pc_characterName (out ! i) = []))))"
proof (intro conjI allI impI; elim conjE)
  fix revRecord facts
  assume "d1 revText = Some revRecord" "revRecord revisionID = Some facts"
  with assms have "loadRevContent d1 db revisionID =
           ([SelectRevHistoryById revisionID, SelectRevText (revTextId r),
             DeserializeRevText revText], Inr facts)"
    by (simp add: loadRevContent_def)
  then show "\<exists>tr out. getCharacterSubjectRevision d1 db revisionID = (tr, Inr out) \<and>
           length out = length facts \<and>
           (\<forall>i < length facts.
              cs_subjectId (out ! i) = cs_subject_id (facts ! i) \<and>
              cs_characterType (out ! i) = cs_crt_type (facts ! i) \<and>
              (fetchSlimSubjectsByIDs db (map cs_subject_id facts) (cs_subject_id (facts ! i))
                 = None \<longrightarrow> cs_subjectName (out ! i) = []))"
    by (simp add: getCharacterSubjectRevision_def Let_def nameOrEmpty_absent)
next
  fix revRecord facts
  assume "d2 revText = Some revRecord" "revRecord revisionID = Some facts"
  with assms have "loadRevContent d2 db revisionID =
           ([SelectRevHistoryById revisionID, SelectRevText (revTextId r),
             DeserializeRevText revText], Inr facts)"
    by (simp add: loadRevContent_def)
  then show "\<exists>tr out. getCharacterPersonRevision d2 db revisionID = (tr, Inr out) \<and>
           length out = length facts \<and>
           (\<forall>i < length facts.
              cp_subjectId (out ! i) = cp_subject_id (facts ! i) \<and>
              cp_personId (out ! i) = cp_prsn_id (facts ! i) \<and>
              (fetchSlimSubjectsByIDs db (map cp_subject_id facts) (cp_subject_id (facts ! i))
                 = None \<longrightarrow> cp_subjectName (out ! i) = []) \<and>
              (fetchSlimPersonsByIDs db (map cp_prsn_id facts) (cp_prsn_id (facts ! i))
                 = None \<longrightarrow> cp_personName (out ! i) = []))"
    by (simp add: getCharacterPersonRevision_def Let_def nameOrEmpty_absent)
next
  fix revRecord facts
  assume "d3 revText = Some revRecord" "revRecord revisionID = Some facts"
  with assms have "loadRevContent d3 db revisionID =
           ([SelectRevHistoryById revisionID, SelectRevText (revTextId r),
             DeserializeRevText revText], Inr facts)"
    by (simp add: loadRevContent_def)
  then show "\<exists>tr out. getPersonSubjectRevision d3 db revisionID = (tr, Inr out) \<and>
           length out = length facts \<and>
           (\<forall>i < length facts.
              ps_subjectId (out ! i) = ps_subject_id (facts ! i) \<and>
              ps_position_out (out ! i) = ps_position (facts ! i) \<and>
              (fetchSlimSubjectsByIDs db (map ps_subject_id facts) (ps_subject_id (facts ! i))
                 = None \<longrightarrow> ps_subjectName (out ! i) = []))"
    by (simp add: getPersonSubjectRevision_def Let_def nameOrEmpty_absent)
next
  fix revRecord facts
  assume "d4 revText = Some revRecord" "revRecord revisionID = Some facts"
  with assms have "loadRevContent d4 db revisionID =
           ([SelectRevHistoryById revisionID, SelectRevText (revTextId r),
             DeserializeRevText revText], Inr facts)"
    by (simp add: loadRevContent_def)
  then show "\<exists>tr out. getPersonCharacterRevision d4 db revisionID = (tr, Inr out) \<and>
           length out = length facts \<and>
           (\<forall>i < length facts.
              pc_subjectId (out ! i) = pc_subject_id (facts ! i) \<and>
              pc_characterId (out ! i) = pc_crt_id (facts ! i) \<and>
              (fetchSlimSubjectsByIDs db (map pc_subject_id facts) (pc_subject_id (facts ! i))
                 = None \<longrightarrow> pc_subjectName (out ! i) = []) \<and>
              (fetchSlimCharactersByIDs db (map pc_crt_id facts) (pc_crt_id (facts ! i))
                 = None \<longrightarrow> pc_characterName (out ! i) = []))"
    by (simp add: getPersonCharacterRevision_def Let_def nameOrEmpty_absent)
qed


theorem revisionDetail_missing_names_witness:
  "find (\<lambda>r. revId r = 3) (revHistoryTable sampleDb) = Some (sampleRow 3 characterSubjectRelation 7 1) \<and>
   revTextTable sampleDb (revTextId (sampleRow 3 characterSubjectRelation 7 1)) = Some ''blob'' \<and>
   fetchSlimSubjectsByIDs sampleDb [11, 12] 12 = None \<and>
   fetchSlimPersonsByIDs sampleDb [21, 22] 22 = None \<and>
   (\<exists>tr out.
      getCharacterSubjectRevision
        (sampleDeserialize [\<lparr> cs_subject_id = 11, cs_crt_type = 1 \<rparr>,
                            \<lparr> cs_subject_id = 12, cs_crt_type = 2 \<rparr>]) sampleDb 3
        = (tr, Inr out) \<and>
      length out = 2 \<and> cs_subjectId (out ! 1) = 12 \<and> cs_characterType (out ! 1) = 2 \<and>
      cs_subjectName (out ! 1) = []) \<and>
   (\<exists>tr out.
      getCharacterPersonRevision
        (sampleDeserialize [\<lparr> cp_subject_id = 11, cp_prsn_id = 21 \<rparr>,
                            \<lparr> cp_subject_id = 12, cp_prsn_id = 22 \<rparr>]) sampleDb 3
        = (tr, Inr out) \<and>
      length out = 2 \<and> cp_subjectId (out ! 1) = 12 \<and> cp_personId (out ! 1) = 22 \<and>
      cp_subjectName (out ! 1) = [] \<and> cp_personName (out ! 1) = [])"
proof -
  let ?cs = "[\<lparr> cs_subject_id = 11, cs_crt_type = 1 \<rparr>, \<lparr> cs_subject_id = 12, cs_crt_type = 2 \<rparr>]"
  let ?cp = "[\<lparr> cp_subject_id = 11, cp_prsn_id = 21 \<rparr>, \<lparr> cp_subject_id = 12, cp_prsn_id = 22 \<rparr>]"
  have a: "find (\<lambda>r. revId r = 3) (revHistoryTable sampleDb) =
             Some (sampleRow 3 characterSubjectRelation 7 1)"
    by (simp add: sampleDb_def sampleRow_def)
  have b: "revTextTable sampleDb (revTextId (sampleRow 3 characterSubjectRelation 7 1)) =
             Some ''blob''"
    by (simp add: sampleDb_def sampleRow_def)
  have s: "fetchSlimSubjectsByIDs sampleDb [11, 12] 12 = None"
    by (simp add: fetchSlimSubjectsByIDs_def fetchSlimByIDs_def sampleDb_def)
  have p: "fetchSlimPersonsByIDs sampleDb [21, 22] 22 = None"
    by (simp add: fetchSlimPersonsByIDs_def fetchSlimByIDs_def sampleDb_def)
  note t = revisionDetail_missing_names[OF a b, of "sampleDeserialize ?cs"
      "sampleDeserialize ?cp" "sampleDeserialize []" "sampleDeserialize []"]
  from t have
    "\<exists>tr out. getCharacterSubjectRevision (sampleDeserialize ?cs) sampleDb 3 = (tr, Inr out) \<and>
       length out = length ?cs \<and>
       (\<forall>i < length ?cs.
          cs_subjectId (out ! i) = cs_subject_id (?cs ! i) \<and>
          cs_characterType (out ! i) = cs_crt_type (?cs ! i) \<and>
          (fetchSlimSubjectsByIDs sampleDb (map cs_subject_id ?cs) (cs_subject_id (?cs ! i))
             = None \<longrightarrow> cs_subjectName (out ! i) = []))"
    by (simp add: sampleDeserialize_def)
  then obtain tr1 out1 where
    r1: "getCharacterSubjectRevision (sampleDeserialize ?cs) sampleDb 3 = (tr1, Inr out1)"
    and l1: "length out1 = length ?cs"
    and g1: "\<forall>i < length ?cs.
          cs_subjectId (out1 ! i) = cs_subject_id (?cs ! i) \<and>
          cs_characterType (out1 ! i) = cs_crt_type (?cs ! i) \<and>
          (fetchSlimSubjectsByIDs sampleDb (map cs_subject_id ?cs) (cs_subject_id (?cs ! i))
             = None \<longrightarrow> cs_subjectName (out1 ! i) = [])"
    by blast
  from g1[rule_format, of 1] s
  have c1: "cs_subjectId (out1 ! 1) = 12 \<and> cs_characterType (out1 ! 1) = 2 \<and>
            cs_subjectName (out1 ! 1) = []"
    by simp
  from t have
    "\<exists>tr out. getCharacterPersonRevision (sampleDeserialize ?cp) sampleDb 3 = (tr, Inr out) \<and>
       length out = length ?cp \<and>
       (\<forall>i < length ?cp.
          cp_subjectId (out ! i) = cp_subject_id (?cp ! i) \<and>
          cp_personId (out ! i) = cp_prsn_id (?cp ! i) \<and>
          (fetchSlimSubjectsByIDs sampleDb (map cp_subject_id ?cp) (cp_subject_id (?cp ! i))
             = None \<longrightarrow> cp_subjectName (out ! i) = []) \<and>
          (fetchSlimPersonsByIDs sampleDb (map cp_prsn_id ?cp) (cp_prsn_id (?cp ! i))
             = None \<longrightarrow> cp_personName (out ! i) = []))"
    by (simp add: sampleDeserialize_def)
  then obtain tr2 out2 where
    r2: "getCharacterPersonRevision (sampleDeserialize ?cp) sampleDb 3 = (tr2, Inr out2)"
    and l2: "length out2 = length ?cp"
    and g2: "\<forall>i < length ?cp.
          cp_subjectId (out2 ! i) = cp_subject_id (?cp ! i) \<and>
          cp_personId (out2 ! i) = cp_prsn_id (?cp ! i) \<and>
          (fetchSlimSubjectsByIDs sampleDb (map cp_subject_id ?cp) (cp_subject_id (?cp ! i))
             = None \<longrightarrow> cp_subjectName (out2 ! i) = []) \<and>
          (fetchSlimPersonsByIDs sampleDb (map cp_prsn_id ?cp) (cp_prsn_id (?cp ! i))
             = None \<longrightarrow> cp_personName (out2 ! i) = [])"
    by blast
  from g2[rule_format, of 1] s p
  have c2: "cp_subjectId (out2 ! 1) = 12 \<and> cp_personId (out2 ! 1) = 22 \<and>
            cp_subjectName (out2 ! 1) = [] \<and> cp_personName (out2 ! 1) = []"
    by simp
  from l1 have l1': "length out1 = 2" by simp
  from l2 have l2': "length out2 = 2" by simp
  from r1 l1' c1 have e1: "\<exists>tr out.
      getCharacterSubjectRevision (sampleDeserialize ?cs) sampleDb 3 = (tr, Inr out) \<and>
      length out = 2 \<and> cs_subjectId (out ! 1) = 12 \<and> cs_characterType (out ! 1) = 2 \<and>
      cs_subjectName (out ! 1) = []"
    by blast
  from r2 l2' c2 have e2: "\<exists>tr out.
      getCharacterPersonRevision (sampleDeserialize ?cp) sampleDb 3 = (tr, Inr out) \<and>
      length out = 2 \<and> cp_subjectId (out ! 1) = 12 \<and> cp_personId (out ! 1) = 22 \<and>
      cp_subjectName (out ! 1) = [] \<and> cp_personName (out ! 1) = []"
    by blast
  from a b s p e1 e2 show ?thesis by (intro conjI)
qed


section \<open>Which routes raise a lock or permission error\<close>

lemma loadRevContent_errors:
  assumes "snd (loadRevContent deserialize db revisionID) = Inl e"
  shows "(\<exists>m. e = NotFoundError m) \<or> e = DecodeError \<or> (\<exists>m. e = TypeError m)"
  using assms by (auto simp: loadRevContent_def split: option.splits)

lemma relationHistoryHandler_errors:
  assumes "snd (relationHistoryHandler idName revTypes ghostUser db targetId query) = Inl e"
  shows "e = DatabaseError \<or> (\<exists>m. e = TypeError m)"
  using assms
  by (auto simp: relationHistoryHandler_def Let_def split: if_splits jsvalue.splits)

lemma relationHistoryRoute_errors:
  assumes "snd (relationHistoryRoute idName revTypes ghostUser db targetId query) = Inl e"
  shows "e = InvalidArgument \<or> e = DatabaseError \<or> (\<exists>m. e = TypeError m)"
  using assms relationHistoryHandler_errors[of idName revTypes ghostUser db targetId query e]
  by (auto simp: relationHistoryRoute_def split: if_splits)

lemma revisionDetail_errors:
  shows "snd (getCharacterSubjectRevision d1 db revisionID) = Inl e \<Longrightarrow>
           snd (loadRevContent d1 db revisionID) = Inl e"
    and "snd (getCharacterPersonRevision d2 db revisionID) = Inl e \<Longrightarrow>
           snd (loadRevContent d2 db revisionID) = Inl e"
    and "snd (getPersonSubjectRevision d3 db revisionID) = Inl e \<Longrightarrow>
           snd (loadRevContent d3 db revisionID) = Inl e"
    and "snd (getPersonCharacterRevision d4 db revisionID) = Inl e \<Longrightarrow>
           snd (loadRevContent d4 db revisionID) = Inl e"
  by (auto simp: getCharacterSubjectRevision_def getCharacterPersonRevision_def
      getPersonSubjectRevision_def getPersonCharacterRevision_def Let_def
      split: prod.splits sum.splits)

text \<open>
  C6, as the claim states it, fails: the lookup of the current wiki information of a
  locked person stops with \<open>NotAllowedError\<close>.
\<close>

theorem getPersonWikiInfo_locked_counterexample:
  "getPersonWikiInfo [1 \<mapsto> samplePerson\<lparr> person_lock := 1 \<rparr>] 1 =
     Inl (NotAllowedError ''edit a locked person'')"
  by (simp add: getPersonWikiInfo_def samplePerson_def)

text \<open>
  C6, amended. The relation history query (the handler, and the route around it) and
  the four revision detail lookups never fail with \<open>LockedError\<close> or
  \<open>NotAllowedError\<close>. The lookup of the current wiki information never fails with
  \<open>LockedError\<close>; it fails with \<open>NotAllowedError\<close> exactly when the person exists,
  is not a redirect and is locked.
\<close>

theorem read_only_lock_errors:
  "snd (relationHistoryHandler idName revTypes ghostUser db targetId query) \<noteq> Inl LockedError \<and>
   snd (relationHistoryHandler idName revTypes ghostUser db targetId query)
     \<noteq> Inl (NotAllowedError m) \<and>
   snd (relationHistoryRoute idName revTypes ghostUser db targetId query) \<noteq> Inl LockedError \<and>
   snd (relationHistoryRoute idName revTypes ghostUser db targetId query)
     \<noteq> Inl (NotAllowedError m) \<and>
   snd (getCharacterSubjectRevision d1 db revisionID) \<noteq> Inl LockedError \<and>
   snd (getCharacterSubjectRevision d1 db revisionID) \<noteq> Inl (NotAllowedError m) \<and>
   snd (getCharacterPersonRevision d2 db revisionID) \<noteq> Inl LockedError \<and>
   snd (getCharacterPersonRevision d2 db revisionID) \<noteq> Inl (NotAllowedError m) \<and>
   snd (getPersonSubjectRevision d3 db revisionID) \<noteq> Inl LockedError \<and>
   snd (getPersonSubjectRevision d3 db revisionID) \<noteq> Inl (NotAllowedError m) \<and>
   snd (getPersonCharacterRevision d4 db revisionID) \<noteq> Inl LockedError \<and>
   snd (getPersonCharacterRevision d4 db revisionID) \<noteq> Inl (NotAllowedError m) \<and>
   getPersonWikiInfo personRepo personID \<noteq> Inl LockedError \<and>
   (getPersonWikiInfo personRepo personID = Inl (NotAllowedError m)) =
     (m = ''edit a locked person'' \<and>
      (\<exists>p. personRepo personID = Some p \<and> person_redirect p = 0 \<and> person_lock p \<noteq> 0))"
proof -
  have h0: "snd (relationHistoryHandler idName revTypes ghostUser db targetId query)
             \<noteq> Inl LockedError"
    "snd (relationHistoryHandler idName revTypes ghostUser db targetId query)
             \<noteq> Inl (NotAllowedError m)"
    using relationHistoryHandler_errors[of idName revTypes ghostUser db targetId query]
    by auto
  have h: "snd (relationHistoryRoute idName revTypes ghostUser db targetId query)
             \<noteq> Inl LockedError"
    "snd (relationHistoryRoute idName revTypes ghostUser db targetId query)
             \<noteq> Inl (NotAllowedError m)"
    using relationHistoryRoute_errors[of idName revTypes ghostUser db targetId query]
    by auto
  have r1: "snd (getCharacterSubjectRevision d1 db revisionID) \<noteq> Inl LockedError"
    "snd (getCharacterSubjectRevision d1 db revisionID) \<noteq> Inl (NotAllowedError m)"
    using revisionDetail_errors(1)[of d1 db revisionID]
      loadRevContent_errors[of d1 db revisionID] by auto
  have r2: "snd (getCharacterPersonRevision d2 db revisionID) \<noteq> Inl LockedError"
    "snd (getCharacterPersonRevision d2 db revisionID) \<noteq> Inl (NotAllowedError m)"
    using revisionDetail_errors(2)[of d2 db revisionID]
      loadRevContent_errors[of d2 db revisionID] by auto
  have r3: "snd (getPersonSubjectRevision d3 db revisionID) \<noteq> Inl LockedError"
    "snd (getPersonSubjectRevision d3 db revisionID) \<noteq> Inl (NotAllowedError m)"
    using revisionDetail_errors(3)[of d3 db revisionID]
      loadRevContent_errors[of d3 db revisionID] by auto
  have r4: "snd (getPersonCharacterRevision d4 db revisionID) \<noteq> Inl LockedError"
    "snd (getPersonCharacterRevision d4 db revisionID) \<noteq> Inl (NotAllowedError m)"
    using revisionDetail_errors(4)[of d4 db revisionID]
      loadRevContent_errors[of d4 db revisionID] by auto
  have w1: "getPersonWikiInfo personRepo personID \<noteq> Inl LockedError"
    by (simp add: getPersonWikiInfo_def split: option.splits)
  have w2: "(getPersonWikiInfo personRepo personID = Inl (NotAllowedError m)) =
     (m = ''edit a locked person'' \<and>
      (\<exists>p. personRepo personID = Some p \<and> person_redirect p = 0 \<and> person_lock p \<noteq> 0))"
    by (auto simp: getPersonWikiInfo_def split: option.splits)
  from h0 h r1 r2 r3 r4 w1 w2 show ?thesis by (intro conjI)
qed

theorem read_only_lock_errors_witness:
  "snd (relationHistoryRoute ''characterID'' [characterSubjectRelation] sampleGhostUser sampleDb
          (JNumber 7) \<lparr> limit = None, offset = None \<rparr>) \<noteq> Inl LockedError \<and>
   snd (getCharacterSubjectRevision (sampleDeserialize []) sampleDb 500)
     \<noteq> Inl (NotAllowedError ''edit a locked person'') \<and>
   getPersonWikiInfo [1 \<mapsto> samplePerson] 1 \<noteq> Inl LockedError \<and>
   getPersonWikiInfo [1 \<mapsto> samplePerson] 1 \<noteq> Inl (NotAllowedError ''edit a locked person'')"
proof -
  note t = read_only_lock_errors[of "''characterID''" "[characterSubjectRelation]"
      sampleGhostUser sampleDb "JNumber 7" "\<lparr> limit = None, offset = None \<rparr>"
      "''edit a locked person''" "sampleDeserialize []" 500 "sampleDeserialize []"
      "sampleDeserialize []" "sampleDeserialize []" "[1 \<mapsto> samplePerson]" 1]
  from t have "getPersonWikiInfo [1 \<mapsto> samplePerson] 1
                 \<noteq> Inl (NotAllowedError ''edit a locked person'')"
    by (simp add: samplePerson_def)
  with t show ?thesis by simp
qed


section \<open>Properties of the person edit\<close>

lemma patchPersonInfoBody_success:
  assumes "patchPersonInfoBody f auth body personID t = Inr (t', u)"
  shows "\<exists>p. persons t personID = Some p \<and>
           t' = t\<lparr> persons := (persons t)(personID \<mapsto> applyEdit (body_person body) p),
                   revisions := revisions t @
                     [personRevision auth (body_commitMessage body) personID
                        (applyEdit (body_person body) p)] \<rparr>"
  using assms
  by (auto simp: patchPersonInfoBody_def save_def createRevision_def Let_def
      split: option.splits if_splits sum.splits)

text \<open>
  C3. A person edit either fails and leaves the store (the person table and the revision
  log) as it was, whichever step failed: the permission check, the lookup, the lock
  check, the expected-revision check, the save or the recording of the revision; or it
  succeeds, and then the store differs from the old one by exactly the saved person and
  one appended revision row of that saved person.
\<close>

theorem patchPersonInfo_atomic:
  assumes "patchPersonInfo f auth body personID st = (st', r)"
  shows "(\<exists>e. r = Inl e \<and> st' = st) \<or>
         (r = Inr () \<and>
          (\<exists>p. persons st personID = Some p \<and>
             st' = st\<lparr> persons := (persons st)(personID \<mapsto> applyEdit (body_person body) p),
                       revisions := revisions st @
                         [personRevision auth (body_commitMessage body) personID
                            (applyEdit (body_person body) p)] \<rparr>))"
proof (cases "mono_edit auth")
  case False
  with assms show ?thesis by (auto simp: patchPersonInfo_def)
next
  case True
  show ?thesis
  proof (cases "patchPersonInfoBody f auth body personID st")
    case (Inl e)
    with True assms show ?thesis
      by (auto simp: patchPersonInfo_def transaction_def)
  next
    case (Inr x)
    then obtain t' u where x: "patchPersonInfoBody f auth body personID st = Inr (t', u)"
      by (cases x) auto
    from True assms x have "st' = t'" and "r = Inr ()"
      by (auto simp: patchPersonInfo_def transaction_def)
    with patchPersonInfoBody_success[OF x] show ?thesis by blast
  qed
qed

theorem patchPersonInfo_atomic_witness:
  "patchPersonInfo \<lparr> saveFails = False, createRevisionFails = True \<rparr> sampleAuth
     \<lparr> body_commitMessage = ''rename'', body_expectedRevision = noEdit,
       body_person = noEdit\<lparr> edit_name := Some ''B'' \<rparr> \<rparr> 1 sampleStore
     = (sampleStore, Inl DatabaseError) \<and>
   snd (patchPersonInfo noFaults sampleAuth
     \<lparr> body_commitMessage = ''rename'', body_expectedRevision = noEdit,
       body_person = noEdit\<lparr> edit_name := Some ''B'' \<rparr> \<rparr> 1 sampleStore) = Inr () \<and>
   fst (patchPersonInfo noFaults sampleAuth
     \<lparr> body_commitMessage = ''rename'', body_expectedRevision = noEdit,
       body_person = noEdit\<lparr> edit_name := Some ''B'' \<rparr> \<rparr> 1 sampleStore) =
     \<lparr> persons = [1 \<mapsto> samplePerson\<lparr> person_name := ''B'' \<rparr>],
       revisions = [\<lparr> rev_mid = 1, rev_type = personEdit,
                      rev_content = \<lparr> crt_name = ''B'', crt_infobox = ''box'',
                                      crt_summary = ''sum'', extra_img = ''img'' \<rparr>,
                      rev_creator = 42, rev_comment = ''rename'' \<rparr>] \<rparr>"
proof -
  let ?body = "\<lparr> body_commitMessage = ''rename'', body_expectedRevision = noEdit,
                  body_person = noEdit\<lparr> edit_name := Some ''B'' \<rparr> \<rparr>"
  let ?bad = "\<lparr> saveFails = False, createRevisionFails = True \<rparr>"
  have e: "snd (patchPersonInfo ?bad sampleAuth ?body 1 sampleStore) = Inl DatabaseError"
    by code_simp
  have s: "snd (patchPersonInfo noFaults sampleAuth ?body 1 sampleStore) = Inr ()"
    by code_simp
  have p: "persons sampleStore 1 = Some samplePerson"
    by (simp add: sampleStore_def)
  from patchPersonInfo_atomic[of ?bad sampleAuth ?body 1 sampleStore
      "fst (patchPersonInfo ?bad sampleAuth ?body 1 sampleStore)"
      "snd (patchPersonInfo ?bad sampleAuth ?body 1 sampleStore)"] e
  have a: "patchPersonInfo ?bad sampleAuth ?body 1 sampleStore = (sampleStore, Inl DatabaseError)"
    by (auto simp: prod_eq_iff)
  from patchPersonInfo_atomic[of noFaults sampleAuth ?body 1 sampleStore
      "fst (patchPersonInfo noFaults sampleAuth ?body 1 sampleStore)"
      "snd (patchPersonInfo noFaults sampleAuth ?body 1 sampleStore)"] s p
  have b: "fst (patchPersonInfo noFaults sampleAuth ?body 1 sampleStore) =
     \<lparr> persons = [1 \<mapsto> samplePerson\<lparr> person_name := ''B'' \<rparr>],
       revisions = [\<lparr> rev_mid = 1, rev_type = personEdit,
                      rev_content = \<lparr> crt_name = ''B'', crt_infobox = ''box'',
                                      crt_summary = ''sum'', extra_img = ''img'' \<rparr>,
                      rev_creator = 42, rev_comment = ''rename'' \<rparr>] \<rparr>"
    by (simp add: sampleStore_def samplePerson_def sampleAuth_def noEdit_def applyEdit_def
        personRevision_def)
  from a s b show ?thesis by (intro conjI)
qed

text \<open>
  C10. After a successful person edit, each of the fields name, infobox and summary that
  is absent from the submitted person keeps its stored value and each one that is present
  takes the submitted value; the other columns of the person and all other persons are
  unchanged.
\<close>

theorem patchPersonInfo_frame:
  assumes "patchPersonInfo f auth body personID st = (st', Inr ())"
    and "persons st personID = Some p"
  shows "\<exists>p'. persons st' personID = Some p' \<and>
           person_name p' = (case edit_name (body_person body) of
                               None \<Rightarrow> person_name p | Some v \<Rightarrow> v) \<and>
           person_infobox p' = (case edit_infobox (body_person body) of
                                  None \<Rightarrow> person_infobox p | Some v \<Rightarrow> v) \<and>
           person_summary p' = (case edit_summary (body_person body) of
                                  None \<Rightarrow> person_summary p | Some v \<Rightarrow> v) \<and>
           person_type p' = person_type p \<and> person_img p' = person_img p \<and>
           person_lock p' = person_lock p \<and> person_redirect p' = person_redirect p \<and>
           (\<forall>k. k \<noteq> personID \<longrightarrow> persons st' k = persons st k)"
proof -
  from assms(1) have m: "mono_edit auth"
    by (auto simp: patchPersonInfo_def split: if_splits)
  with assms(1) obtain u where
    x: "patchPersonInfoBody f auth body personID st = Inr (st', u)"
    by (auto simp: patchPersonInfo_def transaction_def split: sum.splits)
  from patchPersonInfoBody_success[OF x] assms(2)
  have "st' = st\<lparr> persons := (persons st)(personID \<mapsto> applyEdit (body_person body) p),
                   revisions := revisions st @
                     [personRevision auth (body_commitMessage body) personID
                        (applyEdit (body_person body) p)] \<rparr>"
    by auto
  then show ?thesis
    by (simp add: applyEdit_def split: option.splits)
qed

theorem patchPersonInfo_frame_witness:
  "\<exists>p'. persons (fst (patchPersonInfo noFaults sampleAuth
            \<lparr> body_commitMessage = ''rename'', body_expectedRevision = noEdit,
              body_person = noEdit\<lparr> edit_name := Some ''B'' \<rparr> \<rparr> 1 sampleStore)) 1 = Some p' \<and>
         person_name p' = ''B'' \<and> person_infobox p' = ''box'' \<and> person_summary p' = ''sum''"
proof -
  let ?body = "\<lparr> body_commitMessage = ''rename'', body_expectedRevision = noEdit,
                  body_person = noEdit\<lparr> edit_name := Some ''B'' \<rparr> \<rparr>"
  have s: "snd (patchPersonInfo noFaults sampleAuth ?body 1 sampleStore) = Inr ()"
    by code_simp
  then have r: "patchPersonInfo noFaults sampleAuth ?body 1 sampleStore =
             (fst (patchPersonInfo noFaults sampleAuth ?body 1 sampleStore), Inr ())"
    by (simp add: prod_eq_iff)
  have p: "persons sampleStore 1 = Some samplePerson"
    by (simp add: sampleStore_def)
  from patchPersonInfo_frame[OF r p] show ?thesis
    by (auto simp: noEdit_def samplePerson_def)
qed

section \<open>Properties of the expected-revision check\<close>

lemma matchExpected_ok_iff:
  "(matchExpected expected current = Inr ()) = (mismatches expected current = [])"
  by (simp add: matchExpected_def split: list.splits)

lemma mismatches_empty_iff:
  "(mismatches expected current = []) = (\<forall>(field, v) \<in> set expected. current field = v)"
  by (auto simp: mismatches_def filter_empty_conv)

lemma sublist_concat_member:
  assumes "x \<in> set xs"
  shows "sublist (g x) (concat (map g xs))"
proof -
  from assms obtain ps ss where "xs = ps @ x # ss"
    by (auto dest: split_list)
  then have "concat (map g xs) = concat (map g ps) @ g x @ concat (map g ss)"
    by simp
  then show ?thesis by simp
qed

lemma matchExpected_diff:
  assumes "(field, v) \<in> set expected" and "current field \<noteq> v"
  shows "\<exists>d. matchExpected expected current = Inl (WikiChangedError d) \<and>
              sublist (diffEntry field v (current field)) d"
proof -
  let ?g = "\<lambda>(field, v). diffEntry field v (current field)"
  from assms have m: "(field, v) \<in> set (mismatches expected current)"
    by (simp add: mismatches_def)
  then have "mismatches expected current \<noteq> []" by auto
  then have "matchExpected expected current =
               Inl (WikiChangedError (concat (map ?g (mismatches expected current))))"
    by (simp add: matchExpected_def split: list.splits)
  moreover from sublist_concat_member[OF m, of ?g]
  have "sublist (diffEntry field v (current field))
          (concat (map ?g (mismatches expected current)))"
    by simp
  ultimately show ?thesis by blast
qed

lemma matchExpected_cong:
  assumes "\<forall>(field, v) \<in> set expected. current' field = current field"
  shows "matchExpected expected current' = matchExpected expected current"
proof -
  from assms have m: "mismatches expected current' = mismatches expected current"
    unfolding mismatches_def by (intro filter_cong) auto
  have "map (\<lambda>(field, v). diffEntry field v (current' field)) (mismatches expected current) =
        map (\<lambda>(field, v). diffEntry field v (current field)) (mismatches expected current)"
    using assms by (intro map_cong) (auto simp: mismatches_def)
  then have h: "concat (map (\<lambda>(field, v). diffEntry field v (current' field))
                      (mismatches expected current)) =
                concat (map (\<lambda>(field, v). diffEntry field v (current field))
                      (mismatches expected current))"
    by (rule arg_cong)
  show ?thesis
  proof (cases "mismatches expected current")
    case Nil
    with m show ?thesis by (simp add: matchExpected_def)
  next
    case (Cons a list)
    with m h show ?thesis by (simp only: matchExpected_def list.case)
  qed
qed

text \<open>
  C2. The check succeeds exactly when every field of the expected set equals the
  corresponding current field, so an empty expected set always succeeds, and its outcome
  does not depend on the current fields that are absent from the expected set. Otherwise
  it fails with \<open>WikiChangedError\<close>, and for every mismatched field the description
  contains the entry with the field's name, its expected value and its current value.
\<close>

theorem matchExpected_checks_expected_fields:
  "(matchExpected expected current = Inr ()) =
     (\<forall>(field, v) \<in> set expected. current field = v) \<and>
   matchExpected [] current = Inr () \<and>
   (\<forall>current'. (\<forall>(field, v) \<in> set expected. current' field = current field) \<longrightarrow>
      matchExpected expected current' = matchExpected expected current) \<and>
   (\<forall>(field, v) \<in> set expected. current field \<noteq> v \<longrightarrow>
      (\<exists>d. matchExpected expected current = Inl (WikiChangedError d) \<and>
           sublist (diffEntry field v (current field)) d))"
proof (intro conjI)
  show "(matchExpected expected current = Inr ()) =
          (\<forall>(field, v) \<in> set expected. current field = v)"
    by (simp only: matchExpected_ok_iff mismatches_empty_iff)
  show "matchExpected [] current = Inr ()"
    by (simp add: matchExpected_def mismatches_def)
  show "\<forall>current'. (\<forall>(field, v) \<in> set expected. current' field = current field) \<longrightarrow>
          matchExpected expected current' = matchExpected expected current"
    using matchExpected_cong by blast
  show "\<forall>(field, v) \<in> set expected. current field \<noteq> v \<longrightarrow>
          (\<exists>d. matchExpected expected current = Inl (WikiChangedError d) \<and>
               sublist (diffEntry field v (current field)) d)"
    using matchExpected_diff by blast
qed

theorem matchExpected_checks_expected_fields_witness:
  "matchExpected [(''name'', ''A'')] ((\<lambda>_. [])(''name'' := ''A'', ''infobox'' := ''X'')) = Inr () \<and>
   (\<exists>d. matchExpected [(''name'', ''A'')] ((\<lambda>_. [])(''name'' := ''B''))
           = Inl (WikiChangedError d) \<and>
        sublist (diffEntry ''name'' ''A'' ''B'') d)"
proof -
  note t1 = matchExpected_checks_expected_fields[of "[(''name'', ''A'')]"
      "(\<lambda>_. [])(''name'' := ''A'', ''infobox'' := ''X'')"]
  note t2 = matchExpected_checks_expected_fields[of "[(''name'', ''A'')]"
      "(\<lambda>_. [])(''name'' := ''B'')"]
  from t1[THEN conjunct1]
  have a: "matchExpected [(''name'', ''A'')]
             ((\<lambda>_. [])(''name'' := ''A'', ''infobox'' := ''X'')) = Inr ()"
    by simp
  from t2[THEN conjunct2, THEN conjunct2, THEN conjunct2]
  have b: "\<exists>d. matchExpected [(''name'', ''A'')] ((\<lambda>_. [])(''name'' := ''B''))
           = Inl (WikiChangedError d) \<and>
        sublist (diffEntry ''name'' ''A'' ''B'') d"
    by simp
  from a b show ?thesis by (intro conjI)
qed

end
